theory Spec2Isabelle
  imports Main "HOL-Library.AList" "HOL-Library.Word"
begin

section \<open>Python values, dictionaries and exceptions\<close>

text \<open>
  The module under study is \<^verbatim>\<open>model_provider/sagemaker/tts/tts.py\<close>. Its data are Python
  strings, \<^verbatim>\<open>None\<close> and dictionaries with string keys. A dictionary is an association list
  in insertion order; \<^verbatim>\<open>d.get(k)\<close> is a lookup that gives \<^verbatim>\<open>None\<close> for a missing key and
  \<^verbatim>\<open>d[k] = v\<close> replaces the value in place or appends a new entry.
\<close>

datatype pyval = PNone | PStr string

type_synonym dict = "(string \<times> pyval) list"

definition dict_get :: "dict \<Rightarrow> string \<Rightarrow> pyval" where
  "dict_get d k = (case map_of d k of None \<Rightarrow> PNone | Some v \<Rightarrow> v)"

definition dict_get_default :: "dict \<Rightarrow> string \<Rightarrow> pyval \<Rightarrow> pyval" where
  "dict_get_default d k dflt = (case map_of d k of None \<Rightarrow> dflt | Some v \<Rightarrow> v)"

definition dict_set :: "dict \<Rightarrow> string \<Rightarrow> pyval \<Rightarrow> dict" where
  "dict_set d k v = AList.update k v d"

definition keys :: "dict \<Rightarrow> string set" where
  "keys d = fst ` set d"

text \<open>Truthiness of a value in a condition: \<^verbatim>\<open>None\<close> and the empty string are false.\<close>

fun truthy :: "pyval \<Rightarrow> bool" where
  "truthy PNone = False"
| "truthy (PStr s) = (s \<noteq> [])"

text \<open>What an f-string substitutes for a value.\<close>

fun py_format :: "pyval \<Rightarrow> string" where
  "py_format PNone = ''None''"
| "py_format (PStr s) = s"

definition quoted :: "string \<Rightarrow> string" where
  "quoted s = CHR 0x27 # s @ [CHR 0x27]"

text \<open>
  Exceptions are values. Every constructor stands for a subclass of Python's
  \<^verbatim>\<open>Exception\<close>; \<open>LibraryError cls msg\<close> is an exception of class \<open>cls\<close> raised inside a
  collaborator (botocore, requests, the host's base class, the standard library).
  \<open>str_of\<close> is \<^verbatim>\<open>str(ex)\<close>.
\<close>

datatype error =
    NameError string
  | AttributeError string
  | TypeError string
  | RuntimeError string
  | InvokeBadRequestError string
  | LibraryError string string

fun str_of :: "error \<Rightarrow> string" where
  "str_of (NameError n) = ''name '' @ quoted n @ '' is not defined''"
| "str_of (AttributeError m) = m"
| "str_of (TypeError m) = m"
| "str_of (RuntimeError m) = m"
| "str_of (InvokeBadRequestError m) = m"
| "str_of (LibraryError c m) = m"

section \<open>The model class\<close>

text \<open>Lines 19-23: the enumeration of voice modes and the string each member carries.\<close>

datatype TTSModelType = PresetVoice | CloneVoice | CloneVoice_CrossLingual | InstructVoice

fun value_of :: "TTSModelType \<Rightarrow> string" where
  "value_of PresetVoice = ''PresetVoice''"
| "value_of CloneVoice = ''CloneVoice''"
| "value_of CloneVoice_CrossLingual = ''CloneVoice_CrossLingual''"
| "value_of InstructVoice = ''InstructVoice''"

text \<open>
  Lines 27-28: the two client attributes of an instance, \<^verbatim>\<open>None\<close> until \<^verbatim>\<open>_invoke\<close> assigns
  them. A client is what \<^verbatim>\<open>boto3.client(service, **kwargs)\<close> returned.
\<close>

datatype client = Client string dict

record self =
  sagemaker_client :: "client option"
  s3_client :: "client option"

subsection \<open>\<^verbatim>\<open>validate_credentials\<close> (lines 30-38)\<close>

text \<open>The body is \<^verbatim>\<open>pass\<close>: the call returns \<^verbatim>\<open>None\<close> and leaves the instance as it was.\<close>

definition validate_credentials :: "self \<Rightarrow> string \<Rightarrow> dict \<Rightarrow> (error + unit) \<times> self" where
  "validate_credentials slf model credentials = (Inr (), slf)"

subsection \<open>\<^verbatim>\<open>_build_tts_payload\<close> (lines 40-50)\<close>

definition build_tts_payload ::
  "string \<Rightarrow> pyval \<Rightarrow> pyval \<Rightarrow> pyval \<Rightarrow> pyval \<Rightarrow> pyval \<Rightarrow> pyval \<Rightarrow> error + dict" where
  "build_tts_payload content_text model_type model_role prompt_text prompt_audio lang_tag
       instruct_text =
     (if model_type = PStr (value_of PresetVoice) \<and> truthy model_role then
        Inr [(''tts_text'', PStr content_text), (''role'', model_role)]
      else if model_type = PStr (value_of CloneVoice) \<and> truthy prompt_text
                \<and> truthy prompt_audio then
        Inr [(''tts_text'', PStr content_text), (''prompt_text'', prompt_text),
             (''prompt_audio'', prompt_audio)]
      else if model_type = PStr (value_of CloneVoice_CrossLingual) \<and> truthy prompt_audio
                \<and> truthy lang_tag then
        Inr [(''tts_text'', PStr content_text), (''prompt_audio'', prompt_audio),
             (''lang_tag'', lang_tag)]
      else if model_type = PStr (value_of InstructVoice) \<and> truthy instruct_text
                \<and> truthy model_role then
        Inr [(''tts_text'', PStr content_text), (''role'', model_role),
             (''instruct_text'', instruct_text)]
      else Inl (RuntimeError (''Invalid params for '' @ py_format model_type)))"

subsection \<open>The payload contract as the specification words it\<close>

text \<open>
  The specification lists, for each mode, the companion fields that must be present and the
  field set of the payload. On the wire the specification's \<open>text\<close>, \<open>promptText\<close>,
  \<open>promptAudio\<close>, \<open>langTag\<close> and \<open>instructText\<close> are the keys \<^verbatim>\<open>tts_text\<close>, \<^verbatim>\<open>prompt_text\<close>,
  \<^verbatim>\<open>prompt_audio\<close>, \<^verbatim>\<open>lang_tag\<close> and \<^verbatim>\<open>instruct_text\<close>. A field is present when it is a
  non-empty string.
\<close>

definition all_modes :: "TTSModelType list" where
  "all_modes = [PresetVoice, CloneVoice, CloneVoice_CrossLingual, InstructVoice]"

fun required_present ::
  "TTSModelType \<Rightarrow> pyval \<Rightarrow> pyval \<Rightarrow> pyval \<Rightarrow> pyval \<Rightarrow> pyval \<Rightarrow> bool" where
  "required_present PresetVoice role ptext paudio ltag itext = truthy role"
| "required_present CloneVoice role ptext paudio ltag itext = (truthy ptext \<and> truthy paudio)"
| "required_present CloneVoice_CrossLingual role ptext paudio ltag itext =
     (truthy paudio \<and> truthy ltag)"
| "required_present InstructVoice role ptext paudio ltag itext = (truthy role \<and> truthy itext)"

fun documented_payload ::
  "TTSModelType \<Rightarrow> string \<Rightarrow> pyval \<Rightarrow> pyval \<Rightarrow> pyval \<Rightarrow> pyval \<Rightarrow> pyval \<Rightarrow> string \<rightharpoonup> pyval" where
  "documented_payload PresetVoice text role ptext paudio ltag itext =
     [''tts_text'' \<mapsto> PStr text, ''role'' \<mapsto> role]"
| "documented_payload CloneVoice text role ptext paudio ltag itext =
     [''tts_text'' \<mapsto> PStr text, ''prompt_text'' \<mapsto> ptext, ''prompt_audio'' \<mapsto> paudio]"
| "documented_payload CloneVoice_CrossLingual text role ptext paudio ltag itext =
     [''tts_text'' \<mapsto> PStr text, ''prompt_audio'' \<mapsto> paudio, ''lang_tag'' \<mapsto> ltag]"
| "documented_payload InstructVoice text role ptext paudio ltag itext =
     [''tts_text'' \<mapsto> PStr text, ''role'' \<mapsto> role, ''instruct_text'' \<mapsto> itext]"

fun documented_fields :: "TTSModelType \<Rightarrow> string set" where
  "documented_fields PresetVoice = {''tts_text'', ''role''}"
| "documented_fields CloneVoice = {''tts_text'', ''prompt_text'', ''prompt_audio''}"
| "documented_fields CloneVoice_CrossLingual = {''tts_text'', ''prompt_audio'', ''lang_tag''}"
| "documented_fields InstructVoice = {''tts_text'', ''role'', ''instruct_text''}"

definition supported_combination ::
  "pyval \<Rightarrow> pyval \<Rightarrow> pyval \<Rightarrow> pyval \<Rightarrow> pyval \<Rightarrow> pyval \<Rightarrow> bool" where
  "supported_combination model_type role ptext paudio ltag itext =
     (\<exists>m \<in> set all_modes. model_type = PStr (value_of m)
          \<and> required_present m role ptext paudio ltag itext)"

section \<open>Names the module does not bind\<close>

text \<open>
  The file binds, at module level, only what lines 1-17 import and the two classes. The
  bodies of \<^verbatim>\<open>_invoke\<close>, \<^verbatim>\<open>_invoke_sagemaker\<close> and \<^verbatim>\<open>_tts_invoke_streaming\<close> also read
  \<^verbatim>\<open>logger\<close>, \<^verbatim>\<open>boto3\<close>, \<^verbatim>\<open>json\<close>, \<^verbatim>\<open>model\<close>, \<^verbatim>\<open>credentials\<close> and \<^verbatim>\<open>content_text\<close> (the last
  three inside \<^verbatim>\<open>_tts_invoke_streaming\<close>, whose parameters are \<^verbatim>\<open>payload\<close> and
  \<^verbatim>\<open>sagemaker_endpoint\<close>). Python looks such a name up in the module's global namespace
  when the statement runs and raises \<^verbatim>\<open>NameError\<close> when it is not there. The namespace
  is therefore an explicit argument of the model: \<open>module_globals\<close> is the namespace the
  file itself sets up, and the other values of the record describe a namespace in which
  some of the names have been bound (to a logger, to the modules \<^verbatim>\<open>json\<close> and \<^verbatim>\<open>boto3\<close>,
  to strings and a credentials dictionary).
\<close>

record globals =
  model_binding :: "string option"
  credentials_binding :: "dict option"
  content_text_binding :: "string option"
  logger_bound :: bool
  json_bound :: bool
  boto3_bound :: bool

definition module_globals :: globals where
  "module_globals =
     \<lparr>model_binding = None, credentials_binding = None, content_text_binding = None,
      logger_bound = False, json_bound = False, boto3_bound = False\<rparr>"

section \<open>Endpoint responses, audio bytes and chunks\<close>

text \<open>What \<^verbatim>\<open>json.loads\<close> returns; a JSON object is a dictionary.\<close>

datatype json =
    JNull | JBool bool | JNum int | JStr string | JArr "json list"
  | JObj "(string \<times> json) list"

fun type_name :: "json \<Rightarrow> string" where
  "type_name JNull = ''NoneType''"
| "type_name (JBool b) = ''bool''"
| "type_name (JNum n) = ''int''"
| "type_name (JStr s) = ''str''"
| "type_name (JArr xs) = ''list''"
| "type_name (JObj kvs) = ''dict''"

text \<open>
  \<^verbatim>\<open>resp.get(key)\<close>: on a dictionary the value or \<^verbatim>\<open>None\<close>; any other JSON value has no
  attribute \<^verbatim>\<open>get\<close>.
\<close>

fun json_get :: "json \<Rightarrow> string \<Rightarrow> error + json" where
  "json_get (JObj kvs) k = Inr (case map_of kvs k of None \<Rightarrow> JNull | Some v \<Rightarrow> v)"
| "json_get j k =
     Inl (AttributeError (quoted (type_name j) @ '' object has no attribute '' @ quoted ''get''))"

type_synonym byte = "8 word"
type_synonym bytes = "byte list"

text \<open>\<^verbatim>\<open>range(0, stop, step)\<close> for a positive step.\<close>

definition py_range :: "nat \<Rightarrow> nat \<Rightarrow> nat list" where
  "py_range stop step = map (\<lambda>k. k * step) [0..<(stop + step - 1) div step]"

text \<open>
  Lines 211-212 and 218-219: one chunk \<^verbatim>\<open>audio_bytes[i:i + 1024]\<close> for every \<open>i\<close> of
  \<^verbatim>\<open>range(0, len(audio_bytes), 1024)\<close>.
\<close>

definition chunk_audio :: "bytes \<Rightarrow> bytes list" where
  "chunk_audio audio_bytes =
     map (\<lambda>i. take 1024 (drop i audio_bytes)) (py_range (length audio_bytes) 1024)"

section \<open>Collaborators\<close>

text \<open>
  The code of the collaborators is not part of the module; each is a parameter.
  \<^item> \<open>split_text_into_sentences\<close> is the method the host's base class \<^verbatim>\<open>TTSModel\<close> provides,
    applied to what \<^verbatim>\<open>payload.get("content_text")\<close> gave and to \<^verbatim>\<open>max_length\<close>.
  \<^item> \<open>invoke_endpoint i endpoint body\<close> is the outcome of lines 171-177 for the \<open>i\<close>-th
    call, once a client and \<^verbatim>\<open>json\<close> are at hand: the decoded JSON body, or the exception
    raised by the client, by reading and decoding the body or by \<^verbatim>\<open>json.loads\<close>.
  \<^item> \<open>requests_get i url\<close> is \<^verbatim>\<open>requests.get(url).content\<close> for the \<open>i\<close>-th segment: the bytes
    or the exception.
  \<^item> \<open>completion\<close> lists the pool's tasks in the order in which they finish; a task that is
    not listed never finishes.
\<close>

record world =
  split_text_into_sentences :: "pyval \<Rightarrow> nat \<Rightarrow> error + string list"
  invoke_endpoint :: "nat \<Rightarrow> string \<Rightarrow> dict \<Rightarrow> error + json"
  requests_get :: "nat \<Rightarrow> json \<Rightarrow> error + bytes"
  completion :: "nat list"

section \<open>The capability accessor and the endpoint call\<close>

text \<open>Lines 161-162.\<close>

definition get_model_word_limit :: "string \<Rightarrow> dict \<Rightarrow> nat" where
  "get_model_word_limit model credentials = 600"

text \<open>
  \<^verbatim>\<open>_invoke_sagemaker\<close> (lines 170-178). The attribute \<^verbatim>\<open>invoke_endpoint\<close> is looked up on
  \<^verbatim>\<open>self.sagemaker_client\<close> first, then the keyword argument \<^verbatim>\<open>json.dumps(payload)\<close> is
  evaluated, then the endpoint is called. The first component of the result lists the
  endpoint invocations the call issued (endpoint name and body): none or one.
\<close>

definition invoke_sagemaker ::
  "globals \<Rightarrow> self \<Rightarrow> world \<Rightarrow> nat \<Rightarrow> dict \<Rightarrow> string \<Rightarrow> (string \<times> dict) list \<times> (error + json)" where
  "invoke_sagemaker g slf w i payload endpoint =
     (case sagemaker_client slf of
        None \<Rightarrow>
          ([], Inl (AttributeError (quoted ''NoneType'' @ '' object has no attribute ''
                                     @ quoted ''invoke_endpoint'')))
      | Some c \<Rightarrow>
          if \<not> json_bound g then ([], Inl (NameError ''json''))
          else ([(endpoint, payload)], invoke_endpoint w i endpoint payload))"

section \<open>\<^verbatim>\<open>_tts_invoke_streaming\<close> (lines 180-221)\<close>

text \<open>
  The method is a generator. A run of it, consumed to its end, is described by the chunks
  it yielded in order, by how it ended, by the payload objects it handed to the worker pool,
  by the endpoint invocations and audio fetches it caused, and by the store it left.
\<close>

datatype outcome = Exhausted | Raised error | Stalled

type_synonym addr = nat
type_synonym heap = "addr \<Rightarrow> dict"

record run =
  emitted :: "bytes list"
  outcome :: outcome
  submitted :: "addr list"
  calls :: "(string \<times> dict) list"
  fetched :: "json list"
  heap_after :: heap

definition aborted :: "heap \<Rightarrow> error \<Rightarrow> run" where
  "aborted h e =
     \<lparr>emitted = [], outcome = Raised e, submitted = [], calls = [], fetched = [],
      heap_after = h\<rparr>"

text \<open>
  Lines 209-210 and 215-216 are the same two statements: log the response, then fetch
  \<^verbatim>\<open>requests.get(resp.get('s3_presign_url')).content\<close>. The first component lists the URL
  values handed to \<^verbatim>\<open>requests.get\<close>.
\<close>

definition fetch_audio :: "globals \<Rightarrow> world \<Rightarrow> nat \<Rightarrow> json \<Rightarrow> json list \<times> (error + bytes)" where
  "fetch_audio g w index resp =
     (if \<not> logger_bound g then ([], Inl (NameError ''logger''))
      else case json_get resp ''s3_presign_url'' of
             Inl e \<Rightarrow> ([], Inl e)
           | Inr url \<Rightarrow> ([url], requests_get w index url))"

text \<open>
  Lines 196-198: \<^verbatim>\<open>[payload] * len_sent\<close> is a list of \<open>len_sent\<close> references to the one
  dictionary \<^verbatim>\<open>payload\<close>, and the loop stores each sentence through the reference at its
  index.
\<close>

definition assign_texts :: "heap \<Rightarrow> addr list \<Rightarrow> string list \<Rightarrow> heap" where
  "assign_texts h payloads sentences =
     fold (\<lambda>idx h'. h'(payloads ! idx := dict_set (h' (payloads ! idx)) ''tts_text''
                                           (PStr (sentences ! idx))))
          [0..<length sentences] h"

text \<open>
  The pool: the future at position \<open>i\<close> receives the result of task \<open>i\<close> when that task
  finishes, whatever the order of finishing.
\<close>

definition run_pool :: "nat list \<Rightarrow> 'a list \<Rightarrow> 'a option list" where
  "run_pool order tasks =
     fold (\<lambda>i fs. if i < length tasks then fs[i := Some (tasks ! i)] else fs) order
          (replicate (length tasks) None)"

text \<open>
  Lines 207-212: the futures are read in list order. \<^verbatim>\<open>future.result()\<close> waits for a task
  that has not finished, returns what the task returned and raises what it raised.
\<close>

fun emit_results ::
  "globals \<Rightarrow> world \<Rightarrow> nat \<Rightarrow> (error + json) option list \<Rightarrow> bytes list \<times> outcome \<times> json list" where
  "emit_results g w index [] = ([], Exhausted, [])"
| "emit_results g w index (future # futures) =
     (case future of
        None \<Rightarrow> ([], Stalled, [])
      | Some (Inl e) \<Rightarrow> ([], Raised e, [])
      | Some (Inr resp) \<Rightarrow>
          (case fetch_audio g w index resp of
             (urls, Inl e) \<Rightarrow> ([], Raised e, urls)
           | (urls, Inr audio_bytes) \<Rightarrow>
               (case emit_results g w (Suc index) futures of
                  (chunks, out, urls') \<Rightarrow>
                    (chunk_audio audio_bytes @ chunks, out, urls @ urls'))))"

text \<open>Lines 193-212, the branch for a text longer than the word limit.\<close>

definition long_text_path :: "globals \<Rightarrow> self \<Rightarrow> world \<Rightarrow> heap \<Rightarrow> addr \<Rightarrow> string \<Rightarrow> nat \<Rightarrow> run" where
  "long_text_path g slf w h payload sagemaker_endpoint word_limit =
     (case split_text_into_sentences w (dict_get (h payload) ''content_text'') word_limit of
        Inl e \<Rightarrow> aborted h e
      | Inr sentences \<Rightarrow>
          let len_sent = length sentences in
          if min 4 len_sent = 0 then
            aborted h (LibraryError ''ValueError'' ''max_workers must be greater than 0'')
          else
            let payloads = replicate len_sent payload;
                h' = assign_texts h payloads sentences;
                tasks = map (\<lambda>i. invoke_sagemaker g slf w i (h' (payloads ! i))
                                    sagemaker_endpoint) [0..<len_sent];
                futures = run_pool (completion w) (map snd tasks)
            in case emit_results g w 0 futures of
                 (chunks, out, urls) \<Rightarrow>
                   \<lparr>emitted = chunks, outcome = out, submitted = payloads,
                    calls = concat (map fst tasks), fetched = urls, heap_after = h'\<rparr>)"

text \<open>Lines 214-219, the branch for a text within the word limit.\<close>

definition short_text_path :: "globals \<Rightarrow> self \<Rightarrow> world \<Rightarrow> heap \<Rightarrow> addr \<Rightarrow> string \<Rightarrow> run" where
  "short_text_path g slf w h payload sagemaker_endpoint =
     (case invoke_sagemaker g slf w 0 (h payload) sagemaker_endpoint of
        (cs, Inl e) \<Rightarrow> (aborted h e)\<lparr>calls := cs\<rparr>
      | (cs, Inr resp) \<Rightarrow>
          (case fetch_audio g w 0 resp of
             (urls, Inl e) \<Rightarrow> (aborted h e)\<lparr>calls := cs, fetched := urls\<rparr>
           | (urls, Inr audio_bytes) \<Rightarrow>
               \<lparr>emitted = chunk_audio audio_bytes, outcome = Exhausted, submitted = [],
                calls = cs, fetched = urls, heap_after = h\<rparr>))"

text \<open>Lines 191-219, the body of the \<^verbatim>\<open>try\<close> statement.\<close>

definition tts_body :: "globals \<Rightarrow> self \<Rightarrow> world \<Rightarrow> heap \<Rightarrow> addr \<Rightarrow> string \<Rightarrow> run" where
  "tts_body g slf w h payload sagemaker_endpoint =
     (case model_binding g of
        None \<Rightarrow> aborted h (NameError ''model'')
      | Some model \<Rightarrow>
          (case credentials_binding g of
             None \<Rightarrow> aborted h (NameError ''credentials'')
           | Some credentials \<Rightarrow>
               let word_limit = get_model_word_limit model credentials in
               (case content_text_binding g of
                  None \<Rightarrow> aborted h (NameError ''content_text'')
                | Some content_text \<Rightarrow>
                    if length content_text > word_limit then
                      long_text_path g slf w h payload sagemaker_endpoint word_limit
                    else short_text_path g slf w h payload sagemaker_endpoint)))"

text \<open>Lines 190 and 220-221: whatever the body raises is raised again as a bad request.\<close>

definition tts_invoke_streaming :: "globals \<Rightarrow> self \<Rightarrow> world \<Rightarrow> heap \<Rightarrow> addr \<Rightarrow> string \<Rightarrow> run" where
  "tts_invoke_streaming g slf w h payload sagemaker_endpoint =
     (let r = tts_body g slf w h payload sagemaker_endpoint in
      case outcome r of
        Raised ex \<Rightarrow> r\<lparr>outcome := Raised (InvokeBadRequestError (str_of ex))\<rparr>
      | _ \<Rightarrow> r)"

text \<open>The payload objects handed to the pool, each with its content when the calls run.\<close>

definition dispatched :: "run \<Rightarrow> (addr \<times> dict) list" where
  "dispatched r = map (\<lambda>a. (a, heap_after r a)) (submitted r)"

text \<open>
  What lines 208-210 obtain for the segment at position \<open>i\<close> when its task was given
  \<open>body\<close>: the audio bytes, or the exception of the endpoint call or of the fetch.
\<close>

definition segment_audio ::
  "globals \<Rightarrow> self \<Rightarrow> world \<Rightarrow> dict \<Rightarrow> string \<Rightarrow> nat \<Rightarrow> error + bytes" where
  "segment_audio g slf w body sagemaker_endpoint i =
     (case snd (invoke_sagemaker g slf w i body sagemaker_endpoint) of
        Inl e \<Rightarrow> Inl e
      | Inr resp \<Rightarrow> snd (fetch_audio g w i resp))"

section \<open>\<^verbatim>\<open>_invoke\<close> (lines 52-109)\<close>

fun string_of_nat :: "nat \<Rightarrow> string" where
  "string_of_nat n =
     (if n < 10 then [''0123456789'' ! n]
      else string_of_nat (n div 10) @ [''0123456789'' ! (n mod 10)])"

declare string_of_nat.simps [simp del]

text \<open>
  Binding the positional arguments of a call to a method of the class: Python compares
  their number with the parameters of the signature before anything of the body runs, and
  counts \<^verbatim>\<open>self\<close> on both sides in its message. When the numbers agree the call of a
  generator function returns the generator, that is its frame of bound parameters; no
  statement of the body has run then.
\<close>

datatype arg = AStr string | ADict dict

definition bind_positional :: "string \<Rightarrow> string list \<Rightarrow> arg list \<Rightarrow> error + (string \<times> arg) list" where
  "bind_positional fname params args =
     (if length args = length params then Inr (zip params args)
      else if length params < length args then
        Inl (TypeError (fname @ ''() takes '' @ string_of_nat (Suc (length params))
               @ '' positional arguments but '' @ string_of_nat (Suc (length args))
               @ '' were given''))
      else
        Inl (TypeError (fname @ ''() missing '' @ string_of_nat (length params - length args)
               @ '' required positional arguments'')))"

text \<open>Line 180: the parameters of \<^verbatim>\<open>_tts_invoke_streaming\<close> after \<^verbatim>\<open>self\<close>.\<close>

definition tts_invoke_streaming_params :: "string list" where
  "tts_invoke_streaming_params = [''payload'', ''sagemaker_endpoint'']"

text \<open>
  Lines 77-90 create the two clients in three branches that differ in the keyword arguments
  only: first the runtime client, then the storage client, each assigned to the instance
  as soon as it exists.
\<close>

definition create_clients ::
  "globals \<Rightarrow> (string \<Rightarrow> dict \<Rightarrow> error + client) \<Rightarrow> self \<Rightarrow> dict \<Rightarrow> error option \<times> self" where
  "create_clients g boto3_client slf kwargs =
     (if \<not> boto3_bound g then (Some (NameError ''boto3''), slf)
      else case boto3_client ''sagemaker-runtime'' kwargs of
             Inl e \<Rightarrow> (Some e, slf)
           | Inr c \<Rightarrow>
               (case boto3_client ''s3'' kwargs of
                  Inl e \<Rightarrow> (Some e, slf\<lparr>sagemaker_client := Some c\<rparr>)
                | Inr c' \<Rightarrow> (None, slf\<lparr>sagemaker_client := Some c, s3_client := Some c'\<rparr>)))"

definition invoke ::
  "globals \<Rightarrow> (string \<Rightarrow> dict \<Rightarrow> error + client) \<Rightarrow> self \<Rightarrow> string \<Rightarrow> string \<Rightarrow> dict \<Rightarrow> string
     \<Rightarrow> string \<Rightarrow> pyval \<Rightarrow> (error + (string \<times> arg) list) \<times> self" where
  "invoke g boto3_client slf model tenant_id credentials content_text voice user =
     (if \<not> logger_bound g then (Inl (NameError ''logger''), slf)
      else
        case (if sagemaker_client slf = None then
                let access_key = dict_get credentials ''aws_access_key_id'';
                    secret_key = dict_get credentials ''aws_secret_access_key'';
                    aws_region = dict_get credentials ''aws_region''
                in if truthy aws_region then
                     if truthy access_key \<and> truthy secret_key then
                       create_clients g boto3_client slf
                         [(''aws_access_key_id'', access_key),
                          (''aws_secret_access_key'', secret_key),
                          (''region_name'', aws_region)]
                     else create_clients g boto3_client slf [(''region_name'', aws_region)]
                   else create_clients g boto3_client slf []
              else (None, slf)) of
          (Some e, slf') \<Rightarrow> (Inl e, slf')
        | (None, slf') \<Rightarrow>
            let model_type = dict_get_default credentials ''model_type'' (PStr ''PresetVoice'');
                model_role = dict_get credentials ''model_role'';
                prompt_text = dict_get credentials ''prompt_text'';
                prompt_audio = dict_get credentials ''prompt_audio'';
                instruct_text = dict_get credentials ''instruct_text'';
                lang_tag = dict_get credentials ''lang_tag'';
                sagemaker_endpoint = dict_get credentials ''sagemaker_endpoint''
            in (case build_tts_payload content_text model_type model_role prompt_text
                       prompt_audio lang_tag instruct_text of
                  Inl e \<Rightarrow> (Inl e, slf')
                | Inr payload \<Rightarrow>
                    (bind_positional ''SageMakerText2SpeechModel._tts_invoke_streaming''
                       tts_invoke_streaming_params
                       [AStr model, ADict credentials, AStr content_text, AStr voice],
                     slf')))"

section \<open>A concrete run\<close>

text \<open>
  A namespace in which every name is bound, an instance that holds a runtime client, and a
  world with a text of 601 characters that the splitter cuts into two sentences. The
  endpoint answers each call with the URL of its own audio object; the call for the second
  sentence finishes first.
\<close>

definition example_globals :: globals where
  "example_globals =
     \<lparr>model_binding = Some ''tts'', credentials_binding = Some [],
      content_text_binding = Some (replicate 601 CHR ''a''),
      logger_bound = True, json_bound = True, boto3_bound = True\<rparr>"

definition example_self :: self where
  "example_self =
     \<lparr>sagemaker_client = Some (Client ''sagemaker-runtime'' []), s3_client = None\<rparr>"

definition example_world :: world where
  "example_world =
     \<lparr>split_text_into_sentences = (\<lambda>text max_length. Inr [''Hello.'', ''World.'']),
      invoke_endpoint =
        (\<lambda>i endpoint body.
           Inr (JObj [(''s3_presign_url'', JStr (if i = 0 then ''url0'' else ''url1''))])),
      requests_get = (\<lambda>i url. Inr (if i = 0 then [1, 2, 3] else [4, 5])),
      completion = [1, 0]\<rparr>"

definition failing_world :: world where
  "failing_world =
     example_world\<lparr>invoke_endpoint :=
        (\<lambda>i endpoint body.
           if i = 1 then Inl (LibraryError ''ClientError'' ''endpoint failed'')
           else Inr (JObj [(''s3_presign_url'', JStr ''url0'')]))\<rparr>"

definition example_heap :: heap where
  "example_heap = (\<lambda>a. [(''tts_text'', PStr ''Hello.World.''), (''role'', PStr ''r1'')])"

section \<open>Credential validation\<close>

text \<open>
  Claim C10. For every model name and every credentials mapping, also an empty one,
  \<^verbatim>\<open>validate_credentials\<close> returns normally with \<^verbatim>\<open>None\<close>: it raises nothing, checks nothing
  and leaves the instance unchanged.
\<close>

theorem validate_credentials_accepts_all:
  "validate_credentials slf model credentials = (Inr (), slf)"
  by (simp add: validate_credentials_def)

section \<open>The payload builder\<close>

lemma value_of_inj: "value_of m = value_of m' \<longleftrightarrow> m = m'"
  by (cases m; cases m') simp_all

text \<open>
  Claim C3. For each of the four modes, when the mode's required companion fields are all
  present, \<^verbatim>\<open>_build_tts_payload\<close> returns a payload whose keys are pairwise different, whose
  key set is exactly the documented field set of the mode, and whose entries are the text
  and the required fields as they were passed.
\<close>

theorem build_tts_payload_documented_fields:
  assumes "required_present m role ptext paudio ltag itext"
  shows "\<exists>p. build_tts_payload text (PStr (value_of m)) role ptext paudio ltag itext = Inr p
           \<and> distinct (map fst p)
           \<and> keys p = documented_fields m
           \<and> map_of p = documented_payload m text role ptext paudio ltag itext"
  using assms
  by (cases m) (auto simp: build_tts_payload_def keys_def)

theorem build_tts_payload_documented_fields_witness:
  "required_present InstructVoice (PStr ''r1'') PNone PNone PNone (PStr ''speak slowly'')
   \<and> (\<exists>p. build_tts_payload ''Hello world.'' (PStr (value_of InstructVoice)) (PStr ''r1'')
              PNone PNone PNone (PStr ''speak slowly'') = Inr p
         \<and> distinct (map fst p)
         \<and> keys p = documented_fields InstructVoice
         \<and> map_of p = documented_payload InstructVoice ''Hello world.'' (PStr ''r1'')
              PNone PNone PNone (PStr ''speak slowly''))"
proof -
  have h: "required_present InstructVoice (PStr ''r1'') PNone PNone PNone (PStr ''speak slowly'')"
    by simp
  from build_tts_payload_documented_fields [OF h, of "''Hello world.''"] h
  show ?thesis by blast
qed

text \<open>
  Claim C4. For every other combination (a mode string that is none of the four, or one of
  the four with a required companion field absent) \<^verbatim>\<open>_build_tts_payload\<close> returns no payload:
  it raises the invalid-parameters error, the \<^verbatim>\<open>RuntimeError\<close> of line 50, whose message
  \<^verbatim>\<open>Invalid params for <mode>\<close> names the mode that was passed.
\<close>

theorem build_tts_payload_invalid_params:
  assumes "\<not> supported_combination model_type role ptext paudio ltag itext"
  shows "build_tts_payload text model_type role ptext paudio ltag itext
           = Inl (RuntimeError (''Invalid params for '' @ py_format model_type))"
  using assms
  by (auto simp: build_tts_payload_def supported_combination_def all_modes_def)

theorem build_tts_payload_invalid_params_witness:
  "\<not> supported_combination (PStr ''CloneVoice'') (PStr ''r1'') (PStr ''hi'') PNone PNone PNone
   \<and> build_tts_payload ''Hello world.'' (PStr ''CloneVoice'') (PStr ''r1'') (PStr ''hi'')
        PNone PNone PNone
       = Inl (RuntimeError ''Invalid params for CloneVoice'')"
proof -
  have h: "\<not> supported_combination (PStr ''CloneVoice'') (PStr ''r1'') (PStr ''hi'')
             PNone PNone PNone"
    by (simp add: supported_combination_def all_modes_def)
  from build_tts_payload_invalid_params [OF h, of "''Hello world.''"] h
  show ?thesis by simp
qed

end
